theory Spec2Isabelle
  imports Main
begin

section \<open>The timer state machine of the workout clock\<close>

text \<open>
  The development follows \<^verbatim>\<open>src/hooks/useTimer.ts\<close> (the version with the countdown
  intro) and the type declarations of \<^verbatim>\<open>types\<close>. The reducer is a pure function from a
  state and an action to a state; it is embedded as a total HOL function. The source file
  holds two revisions of the reducer, an earlier one without the intro and the documented
  one with it; the documented revision is the one embedded here.

  Numbers. The TypeScript fields are of type \<^verbatim>\<open>number\<close>. Every number the reducer
  receives (settings chosen by steppers, differences of \<^verbatim>\<open>Date.now()\<close>) is an integer, and
  the model takes them as mathematical integers (\<^typ>\<open>int\<close>). The one place where the
  reducer can leave the integers from integer inputs is the Tabata branch, which divides by
  the cycle length: with a cycle of zero the quotient is \<^verbatim>\<open>Infinity\<close>, \<^verbatim>\<open>-Infinity\<close>
  or \<^verbatim>\<open>NaN\<close>, and that value can be stored in \<^verbatim>\<open>currentRound\<close>. The type
  \<open>number\<close> below keeps these three values apart from the integers.
\<close>

subsection \<open>Numbers that may be non-finite\<close>

datatype number = Fin int | PosInfinity | NegInfinity | NaN

text \<open>\<^verbatim>\<open>a % b\<close>: the remainder takes the sign of the dividend; \<^verbatim>\<open>NaN\<close> for a zero divisor.\<close>

definition js_rem :: "int \<Rightarrow> int \<Rightarrow> number" where
  "js_rem a b = (if b = 0 then NaN else Fin (sgn a * (\<bar>a\<bar> mod \<bar>b\<bar>)))"

text \<open>\<^verbatim>\<open>Math.floor(a / b)\<close>: the floor of the quotient; for a zero divisor the sign of the
  dividend decides between the infinities, and \<^verbatim>\<open>0 / 0\<close> is \<^verbatim>\<open>NaN\<close>.\<close>

definition js_floor_div :: "int \<Rightarrow> int \<Rightarrow> number" where
  "js_floor_div a b =
     (if b = 0 then (if 0 < a then PosInfinity else if a < 0 then NegInfinity else NaN)
      else Fin (a div b))"

text \<open>\<^verbatim>\<open>x + 1\<close>, \<^verbatim>\<open>x < n\<close> and \<^verbatim>\<open>x > n\<close> for an integer \<open>n\<close>; a comparison with
  \<^verbatim>\<open>NaN\<close> is false.\<close>

fun js_succ :: "number \<Rightarrow> number" where
  "js_succ (Fin n) = Fin (n + 1)"
| "js_succ PosInfinity = PosInfinity"
| "js_succ NegInfinity = NegInfinity"
| "js_succ NaN = NaN"

fun js_less :: "number \<Rightarrow> int \<Rightarrow> bool" where
  "js_less (Fin n) m = (n < m)"
| "js_less PosInfinity m = False"
| "js_less NegInfinity m = True"
| "js_less NaN m = False"

fun js_greater :: "number \<Rightarrow> int \<Rightarrow> bool" where
  "js_greater (Fin n) m = (m < n)"
| "js_greater PosInfinity m = True"
| "js_greater NegInfinity m = False"
| "js_greater NaN m = False"

subsection \<open>Data model\<close>

datatype TimerMode = Clock | Stopwatch | Countdown | Tabata | Emom | Amrap

record TabataSettings =
  workTime :: int
  restTime :: int
  rounds :: int

record EmomSettings =
  intervalTime :: int
  totalMinutes :: int

record AmrapSettings =
  totalTime :: int

record CountdownSettings =
  totalTime :: int

record TimerState =
  mode :: TimerMode
  isRunning :: bool
  currentTime :: int
  countdown :: CountdownSettings
  tabata :: TabataSettings
  emom :: EmomSettings
  amrap :: AmrapSettings
  currentRound :: number
  isWorkPhase :: bool
  currentMinute :: int
  countdownIntro :: int
  isInCountdownIntro :: bool
  introTimeRemaining :: int

datatype TimerAction =
    SET_MODE TimerMode
  | START
  | STOP
  | RESET
  | TICK int
  | SET_COUNTDOWN CountdownSettings
  | SET_TABATA TabataSettings
  | SET_EMOM EmomSettings
  | SET_AMRAP AmrapSettings
  | SET_COUNTDOWN_INTRO int

definition initialState :: TimerState where
  "initialState =
     \<lparr> mode = Stopwatch,
       isRunning = False,
       currentTime = 0,
       countdown = \<lparr> CountdownSettings.totalTime = 180 \<rparr>,
       tabata = \<lparr> workTime = 20, restTime = 10, rounds = 8 \<rparr>,
       emom = \<lparr> intervalTime = 60, totalMinutes = 10 \<rparr>,
       amrap = \<lparr> AmrapSettings.totalTime = 600 \<rparr>,
       currentRound = Fin 1,
       isWorkPhase = True,
       currentMinute = 1,
       countdownIntro = 10,
       isInCountdownIntro = False,
       introTimeRemaining = 0 \<rparr>"

subsection \<open>The reducer\<close>

text \<open>The main branch of \<^verbatim>\<open>TICK\<close> (the state is not in the intro). The source tests the
  mode four times in sequence and returns early on completion; the tests are on the
  unchanged \<^verbatim>\<open>state.mode\<close>, so at most one of them applies.\<close>

definition tickMain :: "TimerState \<Rightarrow> int \<Rightarrow> TimerState" where
  "tickMain state delta =
     (let newTime = currentTime state + delta;
          newState = state\<lparr>currentTime := newTime\<rparr>
      in
        if mode state = Countdown \<and>
           CountdownSettings.totalTime (countdown state) * 1000 - newTime \<le> 0
        then state\<lparr>currentTime := CountdownSettings.totalTime (countdown state) * 1000,
                   isRunning := False\<rparr>
        else if mode state = Tabata then
          (let cycleTime = (workTime (tabata state) + restTime (tabata state)) * 1000;
               currentCycleTime = js_rem newTime cycleTime;
               round = js_succ (js_floor_div newTime cycleTime);
               workPhase = js_less currentCycleTime (workTime (tabata state) * 1000)
           in
             if js_greater round (rounds (tabata state))
             then state\<lparr>currentTime := rounds (tabata state) * cycleTime,
                        isRunning := False,
                        currentRound := Fin (rounds (tabata state)),
                        isWorkPhase := False\<rparr>
             else newState\<lparr>currentRound := round, isWorkPhase := workPhase\<rparr>)
        else if mode state = Emom then
          (let minute = newTime div 60000 + 1
           in
             if minute > totalMinutes (emom state)
             then state\<lparr>currentTime := totalMinutes (emom state) * 60000,
                        isRunning := False,
                        currentMinute := totalMinutes (emom state)\<rparr>
             else newState\<lparr>currentMinute := minute\<rparr>)
        else if mode state = Amrap \<and>
                newTime \<ge> AmrapSettings.totalTime (amrap state) * 1000
        then state\<lparr>currentTime := AmrapSettings.totalTime (amrap state) * 1000,
                   isRunning := False\<rparr>
        else newState)"

fun timerReducer :: "TimerState \<Rightarrow> TimerAction \<Rightarrow> TimerState" where
  "timerReducer state (SET_MODE m) =
     state\<lparr>mode := m, isRunning := False, currentTime := 0, currentRound := Fin 1,
           isWorkPhase := True, currentMinute := 1, isInCountdownIntro := False,
           introTimeRemaining := 0\<rparr>"
| "timerReducer state START =
     (let supportsIntro = (mode state \<notin> set [Clock, Stopwatch]);
          hasIntro = (countdownIntro state > 0 \<and> supportsIntro)
      in
        if hasIntro \<and> currentTime state = 0
        then state\<lparr>isRunning := True, isInCountdownIntro := True,
                   introTimeRemaining := countdownIntro state * 1000\<rparr>
        else state\<lparr>isRunning := True\<rparr>)"
| "timerReducer state STOP = state\<lparr>isRunning := False\<rparr>"
| "timerReducer state RESET =
     state\<lparr>isRunning := False, currentTime := 0, currentRound := Fin 1,
           isWorkPhase := True, currentMinute := 1, isInCountdownIntro := False,
           introTimeRemaining := 0\<rparr>"
| "timerReducer state (TICK delta) =
     (if isInCountdownIntro state then
        (let newIntroRemaining = introTimeRemaining state - delta
         in
           if newIntroRemaining \<le> 0
           then state\<lparr>isInCountdownIntro := False, introTimeRemaining := 0,
                      currentTime := 0\<rparr>
           else state\<lparr>introTimeRemaining := newIntroRemaining\<rparr>)
      else tickMain state delta)"
| "timerReducer state (SET_COUNTDOWN settings) = state\<lparr>countdown := settings\<rparr>"
| "timerReducer state (SET_TABATA settings) = state\<lparr>tabata := settings\<rparr>"
| "timerReducer state (SET_EMOM settings) = state\<lparr>emom := settings\<rparr>"
| "timerReducer state (SET_AMRAP settings) = state\<lparr>amrap := settings\<rparr>"
| "timerReducer state (SET_COUNTDOWN_INTRO seconds) = state\<lparr>countdownIntro := seconds\<rparr>"

text \<open>A sequence of actions dispatched one after the other, as \<^verbatim>\<open>useReducer\<close> does.\<close>

fun dispatchAll :: "TimerState \<Rightarrow> TimerAction list \<Rightarrow> TimerState" where
  "dispatchAll state [] = state"
| "dispatchAll state (a # as) = dispatchAll (timerReducer state a) as"

subsection \<open>Predicates used in the statements\<close>

text \<open>Every setting the reducer's arithmetic reads is a positive integer.\<close>

definition positiveSettings :: "TimerState \<Rightarrow> bool" where
  "positiveSettings s \<longleftrightarrow>
     0 < CountdownSettings.totalTime (countdown s) \<and>
     0 < workTime (tabata s) \<and> 0 < restTime (tabata s) \<and> 0 < rounds (tabata s) \<and>
     0 < totalMinutes (emom s) \<and>
     0 < AmrapSettings.totalTime (amrap s)"

text \<open>The completion boundary of a mode in milliseconds: the value to which the reducer
  sets \<^verbatim>\<open>currentTime\<close> when it stops the timer. Clock and stopwatch have none.\<close>

definition boundary :: "TimerState \<Rightarrow> int option" where
  "boundary s =
     (case mode s of
        Countdown \<Rightarrow> Some (CountdownSettings.totalTime (countdown s) * 1000)
      | Tabata \<Rightarrow>
          Some (rounds (tabata s) * ((workTime (tabata s) + restTime (tabata s)) * 1000))
      | Emom \<Rightarrow> Some (totalMinutes (emom s) * 60000)
      | Amrap \<Rightarrow> Some (AmrapSettings.totalTime (amrap s) * 1000)
      | Clock \<Rightarrow> None
      | Stopwatch \<Rightarrow> None)"

definition withinBoundary :: "TimerState \<Rightarrow> bool" where
  "withinBoundary s = (case boundary s of None \<Rightarrow> True | Some b \<Rightarrow> currentTime s \<le> b)"

text \<open>The cached progress fields are in range: the round is an integer between 1 and the
  number of rounds, the minute is between 1 and the number of minutes.\<close>

fun roundInRange :: "number \<Rightarrow> int \<Rightarrow> bool" where
  "roundInRange (Fin r) n = (1 \<le> r \<and> r \<le> n)"
| "roundInRange PosInfinity n = False"
| "roundInRange NegInfinity n = False"
| "roundInRange NaN n = False"

definition progressInRange :: "TimerState \<Rightarrow> bool" where
  "progressInRange s \<longleftrightarrow>
     roundInRange (currentRound s) (rounds (tabata s)) \<and>
     1 \<le> currentMinute s \<and> currentMinute s \<le> totalMinutes (emom s)"

definition engineInvariant :: "TimerState \<Rightarrow> bool" where
  "engineInvariant s \<longleftrightarrow> positiveSettings s \<and> 0 \<le> currentTime s \<and> progressInRange s"

text \<open>The actions under which the invariant is kept: a tick has a delta of at least zero,
  and an edit of the settings installs positive values that do not fall below the progress
  already cached.\<close>

fun admissible :: "TimerState \<Rightarrow> TimerAction \<Rightarrow> bool" where
  "admissible s (TICK delta) = (0 \<le> delta)"
| "admissible s (SET_COUNTDOWN settings) = (0 < CountdownSettings.totalTime settings)"
| "admissible s (SET_TABATA settings) =
     (0 < workTime settings \<and> 0 < restTime settings \<and> 0 < rounds settings \<and>
      roundInRange (currentRound s) (rounds settings))"
| "admissible s (SET_EMOM settings) =
     (0 < totalMinutes settings \<and> currentMinute s \<le> totalMinutes settings)"
| "admissible s (SET_AMRAP settings) = (0 < AmrapSettings.totalTime settings)"
| "admissible s (SET_MODE m) = True"
| "admissible s START = True"
| "admissible s STOP = True"
| "admissible s RESET = True"
| "admissible s (SET_COUNTDOWN_INTRO seconds) = True"

subsection \<open>Runs from the initial state\<close>

text \<open>States reached from \<open>initialState\<close> by dispatching actions; the concrete instances
  of the theorems below are taken at these states.\<close>

definition tabataRun :: TimerState where
  "tabataRun = dispatchAll initialState
     [SET_MODE Tabata, SET_TABATA \<lparr>workTime = 20, restTime = 10, rounds = 2\<rparr>,
      SET_COUNTDOWN_INTRO 0, START, TICK 19990]"

definition countdownRun :: TimerState where
  "countdownRun = dispatchAll initialState
     [SET_MODE Countdown, SET_COUNTDOWN_INTRO 0, START, TICK 179990]"

definition emomRun :: TimerState where
  "emomRun = dispatchAll initialState
     [SET_MODE Emom, SET_EMOM \<lparr>intervalTime = 45, totalMinutes = 3\<rparr>,
      SET_COUNTDOWN_INTRO 0, START, TICK 179990]"

definition amrapRun :: TimerState where
  "amrapRun = dispatchAll initialState
     [SET_MODE Amrap, SET_COUNTDOWN_INTRO 0, START, TICK 599990]"

definition introReady :: TimerState where
  "introReady = dispatchAll initialState [SET_MODE Countdown, SET_COUNTDOWN_INTRO 5]"

definition pausedRun :: TimerState where
  "pausedRun = dispatchAll initialState
     [SET_MODE Countdown, START, TICK 10000, TICK 3000, STOP]"

definition stopwatchRun :: TimerState where
  "stopwatchRun = dispatchAll initialState [START, TICK 100]"

definition stoppedStopwatch :: TimerState where
  "stoppedStopwatch = dispatchAll initialState [START, TICK 100, STOP]"

definition shortenedCountdown :: TimerState where
  "shortenedCountdown = dispatchAll initialState
     [SET_MODE Countdown, SET_COUNTDOWN_INTRO 0, START, TICK 100000, STOP,
      SET_COUNTDOWN \<lparr>CountdownSettings.totalTime = 60\<rparr>, START]"

definition tabataLate :: TimerState where
  "tabataLate = dispatchAll initialState
     [SET_MODE Tabata, SET_COUNTDOWN_INTRO 0, START, TICK 130000, STOP]"

definition stoppedClock :: TimerState where
  "stoppedClock = dispatchAll initialState [SET_MODE Clock]"

definition stoppedCountdown :: TimerState where
  "stoppedCountdown = dispatchAll initialState
     [SET_MODE Countdown, SET_COUNTDOWN_INTRO 0, START, TICK 3000, STOP]"

definition stoppedTabata :: TimerState where
  "stoppedTabata = dispatchAll initialState
     [SET_MODE Tabata, SET_COUNTDOWN_INTRO 0, START, TICK 5000, STOP]"

definition stoppedEmom :: TimerState where
  "stoppedEmom = dispatchAll initialState
     [SET_MODE Emom, SET_COUNTDOWN_INTRO 0, START, TICK 59990, STOP]"

definition stoppedAmrap :: TimerState where
  "stoppedAmrap = dispatchAll initialState
     [SET_MODE Amrap, SET_COUNTDOWN_INTRO 0, START, TICK 599990, STOP]"

definition introRunning :: TimerState where
  "introRunning = dispatchAll initialState [SET_MODE Tabata, START, TICK 4000]"

section \<open>Auxiliary facts\<close>

subsection \<open>Arithmetic of the number operations\<close>

lemma js_rem_nonneg: "0 \<le> e \<Longrightarrow> 0 < c \<Longrightarrow> js_rem e c = Fin (e mod c)"
  by (cases "e = 0") (simp_all add: js_rem_def)

lemma js_round_value: "c \<noteq> 0 \<Longrightarrow> js_succ (js_floor_div e c) = Fin (e div c + 1)"
  by (simp add: js_floor_div_def)

lemma js_round_greater:
  "c \<noteq> 0 \<Longrightarrow> js_greater (js_succ (js_floor_div e c)) r = (r < e div c + 1)"
  by (simp add: js_floor_div_def)

lemma div_ge_rounds:
  fixes e c r :: int
  assumes "0 < c" "r * c \<le> e"
  shows "r \<le> e div c"
proof -
  have "r = (r * c) div c" using assms(1) by simp
  also have "\<dots> \<le> e div c" using assms by (intro zdiv_mono1) simp_all
  finally show ?thesis .
qed

lemma div_nonneg_cycle:
  fixes e c :: int
  assumes "0 \<le> e" "0 < c"
  shows "1 \<le> e div c + 1"
  using assms by (simp add: pos_imp_zdiv_nonneg_iff)

lemma nonneg_sum_zero:
  fixes ds :: "int list"
  assumes "\<forall>d\<in>set ds. 0 \<le> d" "sum_list ds = 0"
  shows "\<forall>d\<in>set ds. d = 0"
  using assms by (simp add: sum_list_nonneg_eq_0_iff)

subsection \<open>The runs, evaluated\<close>

lemmas run_simps = initialState_def tickMain_def Let_def js_rem_def js_floor_div_def

lemma tabataRun_state:
  "tabataRun = initialState\<lparr>mode := Tabata, isRunning := True, currentTime := 19990,
     tabata := \<lparr>workTime = 20, restTime = 10, rounds = 2\<rparr>, countdownIntro := 0\<rparr>"
  by (simp add: tabataRun_def run_simps)

lemma countdownRun_state:
  "countdownRun = initialState\<lparr>mode := Countdown, isRunning := True,
     currentTime := 179990, countdownIntro := 0\<rparr>"
  by (simp add: countdownRun_def run_simps)

lemma emomRun_state:
  "emomRun = initialState\<lparr>mode := Emom, isRunning := True, currentTime := 179990,
     emom := \<lparr>intervalTime = 45, totalMinutes = 3\<rparr>, currentMinute := 3,
     countdownIntro := 0\<rparr>"
  by (simp add: emomRun_def run_simps)

lemma amrapRun_state:
  "amrapRun = initialState\<lparr>mode := Amrap, isRunning := True, currentTime := 599990,
     countdownIntro := 0\<rparr>"
  by (simp add: amrapRun_def run_simps)

lemma introReady_state:
  "introReady = initialState\<lparr>mode := Countdown, countdownIntro := 5\<rparr>"
  by (simp add: introReady_def run_simps)

lemma pausedRun_state:
  "pausedRun = initialState\<lparr>mode := Countdown, currentTime := 3000\<rparr>"
  by (simp add: pausedRun_def run_simps)

lemma stopwatchRun_state:
  "stopwatchRun = initialState\<lparr>isRunning := True, currentTime := 100\<rparr>"
  by (simp add: stopwatchRun_def run_simps)

lemma stoppedStopwatch_state:
  "stoppedStopwatch = initialState\<lparr>currentTime := 100\<rparr>"
  by (simp add: stoppedStopwatch_def run_simps)

lemma shortenedCountdown_state:
  "shortenedCountdown = initialState\<lparr>mode := Countdown, isRunning := True,
     currentTime := 100000, countdown := \<lparr>CountdownSettings.totalTime = 60\<rparr>,
     countdownIntro := 0\<rparr>"
  by (simp add: shortenedCountdown_def run_simps)

lemma tabataLate_state:
  "tabataLate = initialState\<lparr>mode := Tabata, currentTime := 130000,
     currentRound := Fin 5, countdownIntro := 0\<rparr>"
  by (simp add: tabataLate_def run_simps)

lemma stoppedClock_state:
  "stoppedClock = initialState\<lparr>mode := Clock\<rparr>"
  by (simp add: stoppedClock_def run_simps)

lemma stoppedCountdown_state:
  "stoppedCountdown = initialState\<lparr>mode := Countdown, currentTime := 3000,
     countdownIntro := 0\<rparr>"
  by (simp add: stoppedCountdown_def run_simps)

lemma stoppedTabata_state:
  "stoppedTabata = initialState\<lparr>mode := Tabata, currentTime := 5000,
     countdownIntro := 0\<rparr>"
  by (simp add: stoppedTabata_def run_simps)

lemma stoppedEmom_state:
  "stoppedEmom = initialState\<lparr>mode := Emom, currentTime := 59990,
     countdownIntro := 0\<rparr>"
  by (simp add: stoppedEmom_def run_simps)

lemma stoppedAmrap_state:
  "stoppedAmrap = initialState\<lparr>mode := Amrap, currentTime := 599990,
     countdownIntro := 0\<rparr>"
  by (simp add: stoppedAmrap_def run_simps)

lemma introRunning_state:
  "introRunning = initialState\<lparr>mode := Tabata, isRunning := True,
     isInCountdownIntro := True, introTimeRemaining := 6000\<rparr>"
  by (simp add: introRunning_def run_simps)

subsection \<open>Ticks in the single modes\<close>

lemma tick_tabata:
  assumes "mode s = Tabata" "\<not> isInCountdownIntro s"
    and "(workTime (tabata s) + restTime (tabata s)) * 1000 \<noteq> 0"
  shows "timerReducer s (TICK delta) =
    (let e = currentTime s + delta;
         cycleMs = (workTime (tabata s) + restTime (tabata s)) * 1000;
         round = e div cycleMs + 1
     in if round > rounds (tabata s)
        then s\<lparr>currentTime := rounds (tabata s) * cycleMs, isRunning := False,
               currentRound := Fin (rounds (tabata s)), isWorkPhase := False\<rparr>
        else s\<lparr>currentTime := e, currentRound := Fin round,
               isWorkPhase := js_less (js_rem e cycleMs) (workTime (tabata s) * 1000)\<rparr>)"
  using assms
  by (simp add: tickMain_def Let_def js_round_greater js_round_value)

lemma tick_at_boundary:
  assumes b: "boundary s = Some b" and ni: "\<not> isInCountdownIntro s"
    and pos: "positiveSettings s" and reach: "b \<le> currentTime s + delta"
  shows "timerReducer s (TICK delta) =
    (case mode s of
       Tabata \<Rightarrow> s\<lparr>currentTime := b, isRunning := False,
                     currentRound := Fin (rounds (tabata s)), isWorkPhase := False\<rparr>
     | Emom \<Rightarrow> s\<lparr>currentTime := b, isRunning := False,
                   currentMinute := totalMinutes (emom s)\<rparr>
     | _ \<Rightarrow> s\<lparr>currentTime := b, isRunning := False\<rparr>)"
proof (cases "mode s")
  case Clock
  then show ?thesis using b by (simp add: boundary_def)
next
  case Stopwatch
  then show ?thesis using b by (simp add: boundary_def)
next
  case Countdown
  then show ?thesis using b ni reach by (auto simp add: boundary_def tickMain_def Let_def)
next
  case Tabata
  let ?c = "(workTime (tabata s) + restTime (tabata s)) * 1000"
  have c: "0 < ?c" using pos by (simp add: positiveSettings_def)
  have bb: "b = rounds (tabata s) * ?c" using b Tabata by (simp add: boundary_def)
  have "rounds (tabata s) \<le> (currentTime s + delta) div ?c"
    using c reach bb by (intro div_ge_rounds) simp_all
  then have gt: "rounds (tabata s) < (currentTime s + delta) div ?c + 1" by simp
  have "js_greater (js_succ (js_floor_div (currentTime s + delta) ?c)) (rounds (tabata s))"
    using c gt by (simp add: js_floor_div_def)
  then show ?thesis using Tabata ni bb by (simp add: tickMain_def Let_def)
next
  case Emom
  have bb: "b = totalMinutes (emom s) * 60000" using b Emom by (simp add: boundary_def)
  have "totalMinutes (emom s) \<le> (currentTime s + delta) div 60000"
    using reach bb by (intro div_ge_rounds) simp_all
  then show ?thesis using Emom ni bb by (simp add: tickMain_def Let_def)
next
  case Amrap
  then show ?thesis using b ni reach by (auto simp add: boundary_def tickMain_def Let_def)
qed

lemma boundary_after_completion:
  assumes b: "boundary s = Some b" and ni: "\<not> isInCountdownIntro s"
    and pos: "positiveSettings s" and reach: "b \<le> currentTime s + delta"
  shows "boundary (timerReducer s (TICK delta)) = Some b \<and>
         \<not> isInCountdownIntro (timerReducer s (TICK delta)) \<and>
         positiveSettings (timerReducer s (TICK delta)) \<and>
         currentTime (timerReducer s (TICK delta)) = b \<and>
         \<not> isRunning (timerReducer s (TICK delta))"
  using b ni pos unfolding tick_at_boundary [OF assms]
  by (cases "mode s") (simp_all add: boundary_def positiveSettings_def)

lemma tick_nonneg_mono:
  assumes "\<not> isInCountdownIntro s" "withinBoundary s" "0 \<le> delta"
  shows "currentTime s \<le> currentTime (timerReducer s (TICK delta))"
  using assms
  by (cases "mode s")
     (auto simp add: tickMain_def Let_def withinBoundary_def boundary_def)

subsection \<open>The intro, run to its end\<close>

lemma zero_ticks_countdown:
  assumes "mode s = Countdown" "\<not> isInCountdownIntro s" "currentTime s = 0"
    and "0 \<le> CountdownSettings.totalTime (countdown s)" "\<forall>d\<in>set ds. d = 0"
  shows "\<not> isInCountdownIntro (dispatchAll s (map TICK ds)) \<and>
         currentTime (dispatchAll s (map TICK ds)) = 0"
  using assms
proof (induction ds arbitrary: s)
  case Nil
  then show ?case by simp
next
  case (Cons d ds)
  let ?s' = "timerReducer s (TICK d)"
  have d: "d = 0" using Cons.prems by simp
  have "mode ?s' = Countdown \<and> \<not> isInCountdownIntro ?s' \<and> currentTime ?s' = 0 \<and>
        0 \<le> CountdownSettings.totalTime (countdown ?s')"
    using Cons.prems d by (auto simp add: tickMain_def Let_def)
  then have "\<not> isInCountdownIntro (dispatchAll ?s' (map TICK ds)) \<and>
      currentTime (dispatchAll ?s' (map TICK ds)) = 0"
    using Cons.prems by (intro Cons.IH) simp_all
  then show ?case by simp
qed

lemma intro_runs_out:
  assumes "mode s = Countdown" "isInCountdownIntro s" "0 < introTimeRemaining s"
    and "0 \<le> CountdownSettings.totalTime (countdown s)"
    and "\<forall>d\<in>set ds. 0 \<le> d" "sum_list ds = introTimeRemaining s"
  shows "\<not> isInCountdownIntro (dispatchAll s (map TICK ds)) \<and>
         currentTime (dispatchAll s (map TICK ds)) = 0"
  using assms
proof (induction ds arbitrary: s)
  case Nil
  then show ?case by simp
next
  case (Cons d ds)
  let ?s' = "timerReducer s (TICK d)"
  have nonneg: "\<forall>x\<in>set ds. 0 \<le> x" and d0: "0 \<le> d" using Cons.prems by simp_all
  have rest0: "0 \<le> sum_list ds" using nonneg by (simp add: sum_list_nonneg)
  have total: "d + sum_list ds = introTimeRemaining s" using Cons.prems by simp
  show ?case
  proof (cases "introTimeRemaining s - d \<le> 0")
    case True
    then have "sum_list ds = 0" using total rest0 by simp
    then have zeros: "\<forall>x\<in>set ds. x = 0" using nonneg by (intro nonneg_sum_zero) simp_all
    have "mode ?s' = Countdown \<and> \<not> isInCountdownIntro ?s' \<and> currentTime ?s' = 0 \<and>
          0 \<le> CountdownSettings.totalTime (countdown ?s')"
      using Cons.prems True by simp
    then have "\<not> isInCountdownIntro (dispatchAll ?s' (map TICK ds)) \<and>
        currentTime (dispatchAll ?s' (map TICK ds)) = 0"
      using zeros by (intro zero_ticks_countdown) simp_all
    then show ?thesis by simp
  next
    case False
    then have "mode ?s' = Countdown \<and> isInCountdownIntro ?s' \<and>
          0 < introTimeRemaining ?s' \<and>
          0 \<le> CountdownSettings.totalTime (countdown ?s') \<and>
          sum_list ds = introTimeRemaining ?s'"
      using Cons.prems total by simp
    then have "\<not> isInCountdownIntro (dispatchAll ?s' (map TICK ds)) \<and>
        currentTime (dispatchAll ?s' (map TICK ds)) = 0"
      using nonneg by (intro Cons.IH) simp_all
    then show ?thesis by simp
  qed
qed

subsection \<open>A tick keeps the invariant\<close>

lemmas invariant_defs = engineInvariant_def positiveSettings_def progressInRange_def

lemma tick_keeps_invariant:
  assumes inv: "engineInvariant s" and d: "0 \<le> delta"
  shows "engineInvariant (timerReducer s (TICK delta))"
proof (cases "isInCountdownIntro s")
  case True
  then show ?thesis using inv by (simp add: invariant_defs Let_def)
next
  case ni: False
  have e: "0 \<le> currentTime s + delta" using inv d by (simp add: engineInvariant_def)
  show ?thesis
  proof (cases "mode s")
    case Clock
    then show ?thesis using inv ni e by (simp add: invariant_defs tickMain_def Let_def)
  next
    case Stopwatch
    then show ?thesis using inv ni e by (simp add: invariant_defs tickMain_def Let_def)
  next
    case Countdown
    then show ?thesis using inv ni e by (simp add: invariant_defs tickMain_def Let_def)
  next
    case Tabata
    let ?c = "(workTime (tabata s) + restTime (tabata s)) * 1000"
    have c: "0 < ?c" using inv by (simp add: engineInvariant_def positiveSettings_def)
    have r1: "1 \<le> (currentTime s + delta) div ?c + 1"
      using e c by (rule div_nonneg_cycle)
    have fd: "js_succ (js_floor_div (currentTime s + delta) ?c) =
        Fin ((currentTime s + delta) div ?c + 1)"
      using c by (simp add: js_floor_div_def)
    show ?thesis
    proof (cases "rounds (tabata s) < (currentTime s + delta) div ?c + 1")
      case True
      then show ?thesis using inv ni Tabata fd c
        by (simp add: invariant_defs tickMain_def Let_def)
    next
      case False
      then show ?thesis using inv ni Tabata fd e r1
        by (simp add: invariant_defs tickMain_def Let_def)
    qed
  next
    case Emom
    have m1: "1 \<le> (currentTime s + delta) div 60000 + 1"
      using e by (intro div_nonneg_cycle) simp_all
    show ?thesis using inv ni Emom e m1
      by (simp add: invariant_defs tickMain_def Let_def)
  next
    case Amrap
    then show ?thesis using inv ni e by (simp add: invariant_defs tickMain_def Let_def)
  qed
qed

section \<open>The claims\<close>

subsection \<open>Tabata ticks\<close>

text \<open>
  C1. In Tabata mode, outside the intro, with positive work time, rest time and rounds, a
  tick with a delta of at least zero computes the provisional elapsed time
  \<open>e = currentTime + delta\<close>, the cycle \<open>cycleMs = (workTime + restTime) * 1000\<close> and the
  round \<open>e div cycleMs + 1\<close>. If the round exceeds the rounds setting, the result has
  \<open>currentTime = rounds * cycleMs\<close>, is stopped, is in round \<open>rounds\<close> and in the rest
  phase; otherwise it stores \<open>e\<close>, the round and the phase. The phase is the comparison of
  the remainder of \<open>e\<close> by the cycle with the work time, and for \<open>e\<close> of at least zero that
  remainder is \<open>e mod cycleMs\<close>. With 20 s work, 10 s rest and 2 rounds: at 19999 ms work
  phase of round 1, at 20000 ms rest phase of round 1, at 59999 ms rest phase of round 2,
  at 60000 ms stopped at 60000 ms in round 2, rest phase.
\<close>

theorem tabata_tick:
  "(mode s = Tabata \<and> \<not> isInCountdownIntro s \<and> 0 < workTime (tabata s) \<and>
    0 < restTime (tabata s) \<and> 0 < rounds (tabata s) \<and> 0 \<le> delta \<longrightarrow>
      (let e = currentTime s + delta;
           cycleMs = (workTime (tabata s) + restTime (tabata s)) * 1000;
           round = e div cycleMs + 1;
           phase = js_less (js_rem e cycleMs) (workTime (tabata s) * 1000)
       in timerReducer s (TICK delta) =
            (if round > rounds (tabata s)
             then s\<lparr>currentTime := rounds (tabata s) * cycleMs, isRunning := False,
                    currentRound := Fin (rounds (tabata s)), isWorkPhase := False\<rparr>
             else s\<lparr>currentTime := e, currentRound := Fin round, isWorkPhase := phase\<rparr>)
          \<and> (0 \<le> e \<longrightarrow> phase = (e mod cycleMs < workTime (tabata s) * 1000))))
   \<and>
   (mode t = Tabata \<and> \<not> isInCountdownIntro t \<and>
    tabata t = \<lparr>workTime = 20, restTime = 10, rounds = 2\<rparr> \<longrightarrow>
      (currentTime t + d = 19999 \<longrightarrow>
         isWorkPhase (timerReducer t (TICK d)) \<and>
         currentRound (timerReducer t (TICK d)) = Fin 1) \<and>
      (currentTime t + d = 20000 \<longrightarrow>
         \<not> isWorkPhase (timerReducer t (TICK d)) \<and>
         currentRound (timerReducer t (TICK d)) = Fin 1) \<and>
      (currentTime t + d = 59999 \<longrightarrow>
         \<not> isWorkPhase (timerReducer t (TICK d)) \<and>
         currentRound (timerReducer t (TICK d)) = Fin 2) \<and>
      (currentTime t + d = 60000 \<longrightarrow>
         \<not> isRunning (timerReducer t (TICK d)) \<and>
         currentTime (timerReducer t (TICK d)) = 60000 \<and>
         currentRound (timerReducer t (TICK d)) = Fin 2 \<and>
         \<not> isWorkPhase (timerReducer t (TICK d))))"
proof (intro conjI impI)
  assume h: "mode s = Tabata \<and> \<not> isInCountdownIntro s \<and> 0 < workTime (tabata s) \<and>
    0 < restTime (tabata s) \<and> 0 < rounds (tabata s) \<and> 0 \<le> delta"
  let ?e = "currentTime s + delta"
  let ?c = "(workTime (tabata s) + restTime (tabata s)) * 1000"
  have c: "0 < ?c" using h by simp
  have step: "timerReducer s (TICK delta) =
    (let e = ?e; cycleMs = ?c; round = e div cycleMs + 1
     in if round > rounds (tabata s)
        then s\<lparr>currentTime := rounds (tabata s) * cycleMs, isRunning := False,
               currentRound := Fin (rounds (tabata s)), isWorkPhase := False\<rparr>
        else s\<lparr>currentTime := e, currentRound := Fin round,
               isWorkPhase := js_less (js_rem e cycleMs) (workTime (tabata s) * 1000)\<rparr>)"
    using h c by (intro tick_tabata) simp_all
  have phase: "0 \<le> ?e \<longrightarrow>
     js_less (js_rem ?e ?c) (workTime (tabata s) * 1000) =
       (?e mod ?c < workTime (tabata s) * 1000)"
    using c by (simp add: js_rem_nonneg)
  show "let e = currentTime s + delta;
           cycleMs = (workTime (tabata s) + restTime (tabata s)) * 1000;
           round = e div cycleMs + 1;
           phase = js_less (js_rem e cycleMs) (workTime (tabata s) * 1000)
       in timerReducer s (TICK delta) =
            (if round > rounds (tabata s)
             then s\<lparr>currentTime := rounds (tabata s) * cycleMs, isRunning := False,
                    currentRound := Fin (rounds (tabata s)), isWorkPhase := False\<rparr>
             else s\<lparr>currentTime := e, currentRound := Fin round, isWorkPhase := phase\<rparr>)
          \<and> (0 \<le> e \<longrightarrow> phase = (e mod cycleMs < workTime (tabata s) * 1000))"
    using step phase by (simp add: Let_def)
next
  assume h: "mode t = Tabata \<and> \<not> isInCountdownIntro t \<and>
    tabata t = \<lparr>workTime = 20, restTime = 10, rounds = 2\<rparr>"
  assume e: "currentTime t + d = 19999"
  show "isWorkPhase (timerReducer t (TICK d))"
    using h e by (simp add: tickMain_def Let_def js_rem_def js_floor_div_def)
  show "currentRound (timerReducer t (TICK d)) = Fin 1"
    using h e by (simp add: tickMain_def Let_def js_rem_def js_floor_div_def)
next
  assume h: "mode t = Tabata \<and> \<not> isInCountdownIntro t \<and>
    tabata t = \<lparr>workTime = 20, restTime = 10, rounds = 2\<rparr>"
  assume e: "currentTime t + d = 20000"
  show "\<not> isWorkPhase (timerReducer t (TICK d))"
    using h e by (simp add: tickMain_def Let_def js_rem_def js_floor_div_def)
  show "currentRound (timerReducer t (TICK d)) = Fin 1"
    using h e by (simp add: tickMain_def Let_def js_rem_def js_floor_div_def)
next
  assume h: "mode t = Tabata \<and> \<not> isInCountdownIntro t \<and>
    tabata t = \<lparr>workTime = 20, restTime = 10, rounds = 2\<rparr>"
  assume e: "currentTime t + d = 59999"
  show "\<not> isWorkPhase (timerReducer t (TICK d))"
    using h e by (simp add: tickMain_def Let_def js_rem_def js_floor_div_def)
  show "currentRound (timerReducer t (TICK d)) = Fin 2"
    using h e by (simp add: tickMain_def Let_def js_rem_def js_floor_div_def)
next
  assume h: "mode t = Tabata \<and> \<not> isInCountdownIntro t \<and>
    tabata t = \<lparr>workTime = 20, restTime = 10, rounds = 2\<rparr>"
  assume e: "currentTime t + d = 60000"
  show "\<not> isRunning (timerReducer t (TICK d))"
    using h e by (simp add: tickMain_def Let_def js_rem_def js_floor_div_def)
  show "currentTime (timerReducer t (TICK d)) = 60000"
    using h e by (simp add: tickMain_def Let_def js_rem_def js_floor_div_def)
  show "currentRound (timerReducer t (TICK d)) = Fin 2"
    using h e by (simp add: tickMain_def Let_def js_rem_def js_floor_div_def)
  show "\<not> isWorkPhase (timerReducer t (TICK d))"
    using h e by (simp add: tickMain_def Let_def js_rem_def js_floor_div_def)
qed

text \<open>The four boundary points, on the run that is 19990 ms into a 20/10/2 Tabata.\<close>

theorem tabata_tick_witness:
  "mode tabataRun = Tabata \<and> \<not> isInCountdownIntro tabataRun \<and>
   tabata tabataRun = \<lparr>workTime = 20, restTime = 10, rounds = 2\<rparr> \<and>
   currentTime tabataRun = 19990 \<and>
   timerReducer tabataRun (TICK 9) =
     tabataRun\<lparr>currentTime := 19999, currentRound := Fin 1, isWorkPhase := True\<rparr> \<and>
   timerReducer tabataRun (TICK 10) =
     tabataRun\<lparr>currentTime := 20000, currentRound := Fin 1, isWorkPhase := False\<rparr> \<and>
   timerReducer tabataRun (TICK 40009) =
     tabataRun\<lparr>currentTime := 59999, currentRound := Fin 2, isWorkPhase := False\<rparr> \<and>
   timerReducer tabataRun (TICK 40010) =
     tabataRun\<lparr>currentTime := 60000, isRunning := False, currentRound := Fin 2,
               isWorkPhase := False\<rparr>"
  using tabata_tick [of tabataRun 9 tabataRun 9]
    tabata_tick [of tabataRun 10 tabataRun 10]
    tabata_tick [of tabataRun 40009 tabataRun 40009]
    tabata_tick [of tabataRun 40010 tabataRun 40010]
  by (simp add: tabataRun_state initialState_def Let_def js_rem_def)

subsection \<open>Completion at the boundary\<close>

text \<open>
  C2. In a mode with a completion boundary (countdown, tabata, emom, amrap), with positive
  settings and outside the intro: a tick with a delta of at least zero that carries the
  elapsed time to or past the boundary yields a state whose \<open>currentTime\<close> is the boundary
  exactly and which is stopped; and on that state every further tick with a delta of at
  least zero changes nothing.
\<close>

theorem completion_exact_and_final:
  assumes "boundary s = Some b" and "\<not> isInCountdownIntro s"
    and "positiveSettings s" and "0 \<le> delta" and "b \<le> currentTime s + delta"
  shows "currentTime (timerReducer s (TICK delta)) = b \<and>
         \<not> isRunning (timerReducer s (TICK delta)) \<and>
         (\<forall>d\<ge>0. timerReducer (timerReducer s (TICK delta)) (TICK d) =
                 timerReducer s (TICK delta))"
proof -
  let ?s' = "timerReducer s (TICK delta)"
  have first: "?s' =
    (case mode s of
       Tabata \<Rightarrow> s\<lparr>currentTime := b, isRunning := False,
                     currentRound := Fin (rounds (tabata s)), isWorkPhase := False\<rparr>
     | Emom \<Rightarrow> s\<lparr>currentTime := b, isRunning := False,
                   currentMinute := totalMinutes (emom s)\<rparr>
     | _ \<Rightarrow> s\<lparr>currentTime := b, isRunning := False\<rparr>)"
    using assms by (intro tick_at_boundary) simp_all
  have after: "boundary ?s' = Some b \<and> \<not> isInCountdownIntro ?s' \<and> positiveSettings ?s' \<and>
      currentTime ?s' = b \<and> \<not> isRunning ?s'"
    using assms by (intro boundary_after_completion) simp_all
  have again: "timerReducer ?s' (TICK d) = ?s'" if d: "0 \<le> d" for d
  proof -
    have reach: "b \<le> currentTime ?s' + d" using after d by simp
    have "timerReducer ?s' (TICK d) =
      (case mode ?s' of
         Tabata \<Rightarrow> ?s'\<lparr>currentTime := b, isRunning := False,
                       currentRound := Fin (rounds (tabata ?s')), isWorkPhase := False\<rparr>
       | Emom \<Rightarrow> ?s'\<lparr>currentTime := b, isRunning := False,
                     currentMinute := totalMinutes (emom ?s')\<rparr>
       | _ \<Rightarrow> ?s'\<lparr>currentTime := b, isRunning := False\<rparr>)"
      using after reach by (intro tick_at_boundary) simp_all
    also have "\<dots> = ?s'"
      unfolding first by (cases "mode s") simp_all
    finally show ?thesis .
  qed
  show ?thesis using after again by simp
qed

text \<open>One run per mode: each is 10 ms short of its boundary, the tick overshoots it.\<close>

theorem completion_exact_and_final_witness:
  "boundary countdownRun = Some 180000 \<and> positiveSettings countdownRun \<and>
   currentTime countdownRun = 179990 \<and>
   currentTime (timerReducer countdownRun (TICK 25)) = 180000 \<and>
   \<not> isRunning (timerReducer countdownRun (TICK 25)) \<and>
   timerReducer (timerReducer countdownRun (TICK 25)) (TICK 10) =
     timerReducer countdownRun (TICK 25) \<and>
   boundary tabataRun = Some 60000 \<and>
   currentTime (timerReducer tabataRun (TICK 50000)) = 60000 \<and>
   \<not> isRunning (timerReducer tabataRun (TICK 50000)) \<and>
   timerReducer (timerReducer tabataRun (TICK 50000)) (TICK 10) =
     timerReducer tabataRun (TICK 50000) \<and>
   boundary emomRun = Some 180000 \<and>
   currentTime (timerReducer emomRun (TICK 10)) = 180000 \<and>
   \<not> isRunning (timerReducer emomRun (TICK 10)) \<and>
   timerReducer (timerReducer emomRun (TICK 10)) (TICK 0) =
     timerReducer emomRun (TICK 10) \<and>
   boundary amrapRun = Some 600000 \<and>
   currentTime (timerReducer amrapRun (TICK 11)) = 600000 \<and>
   \<not> isRunning (timerReducer amrapRun (TICK 11)) \<and>
   timerReducer (timerReducer amrapRun (TICK 11)) (TICK 10) =
     timerReducer amrapRun (TICK 11)"
proof -
  have c: "boundary countdownRun = Some 180000" "\<not> isInCountdownIntro countdownRun"
    "positiveSettings countdownRun" "currentTime countdownRun = 179990"
    by (simp_all add: countdownRun_state initialState_def boundary_def positiveSettings_def)
  have t: "boundary tabataRun = Some 60000" "\<not> isInCountdownIntro tabataRun"
    "positiveSettings tabataRun" "currentTime tabataRun = 19990"
    by (simp_all add: tabataRun_state initialState_def boundary_def positiveSettings_def)
  have e: "boundary emomRun = Some 180000" "\<not> isInCountdownIntro emomRun"
    "positiveSettings emomRun" "currentTime emomRun = 179990"
    by (simp_all add: emomRun_state initialState_def boundary_def positiveSettings_def)
  have a: "boundary amrapRun = Some 600000" "\<not> isInCountdownIntro amrapRun"
    "positiveSettings amrapRun" "currentTime amrapRun = 599990"
    by (simp_all add: amrapRun_state initialState_def boundary_def positiveSettings_def)
  show ?thesis
    using c t e a
      completion_exact_and_final [of countdownRun 180000 25]
      completion_exact_and_final [of tabataRun 60000 50000]
      completion_exact_and_final [of emomRun 180000 10]
      completion_exact_and_final [of amrapRun 600000 11]
    by simp
qed

subsection \<open>The countdown intro\<close>

text \<open>
  C3. In the intro a tick subtracts its delta from \<open>introTimeRemaining\<close>. If the result is
  at most zero, the state leaves the intro with \<open>introTimeRemaining = 0\<close> and
  \<open>currentTime = 0\<close>: what the delta exceeds the intro by is dropped. Otherwise the
  decremented value is stored and \<open>currentTime\<close> stays. In particular: a countdown with an
  intro of 5 s, started at \<open>currentTime = 0\<close>, enters the intro with 5000 ms, and ticks
  (each with a delta of at least zero, the countdown's total time positive) that sum to
  exactly 5000 ms leave it outside the intro at \<open>currentTime = 0\<close>.
\<close>

theorem intro_tick:
  "(isInCountdownIntro s \<longrightarrow>
      timerReducer s (TICK delta) =
        (if introTimeRemaining s - delta \<le> 0
         then s\<lparr>isInCountdownIntro := False, introTimeRemaining := 0, currentTime := 0\<rparr>
         else s\<lparr>introTimeRemaining := introTimeRemaining s - delta\<rparr>))
   \<and>
   (mode t = Countdown \<and> countdownIntro t = 5 \<and> currentTime t = 0 \<and>
    0 < CountdownSettings.totalTime (countdown t) \<and>
    (\<forall>d\<in>set ds. 0 \<le> d) \<and> sum_list ds = 5000 \<longrightarrow>
      isInCountdownIntro (timerReducer t START) \<and>
      introTimeRemaining (timerReducer t START) = 5000 \<and>
      \<not> isInCountdownIntro (dispatchAll (timerReducer t START) (map TICK ds)) \<and>
      currentTime (dispatchAll (timerReducer t START) (map TICK ds)) = 0)"
proof (intro conjI impI)
  assume "isInCountdownIntro s"
  then show "timerReducer s (TICK delta) =
        (if introTimeRemaining s - delta \<le> 0
         then s\<lparr>isInCountdownIntro := False, introTimeRemaining := 0, currentTime := 0\<rparr>
         else s\<lparr>introTimeRemaining := introTimeRemaining s - delta\<rparr>)"
    by (simp add: Let_def)
next
  assume h: "mode t = Countdown \<and> countdownIntro t = 5 \<and> currentTime t = 0 \<and>
    0 < CountdownSettings.totalTime (countdown t) \<and>
    (\<forall>d\<in>set ds. 0 \<le> d) \<and> sum_list ds = 5000"
  let ?t' = "timerReducer t START"
  have start: "?t' = t\<lparr>isRunning := True, isInCountdownIntro := True,
      introTimeRemaining := 5000\<rparr>"
    using h by simp
  show "isInCountdownIntro ?t'" and "introTimeRemaining ?t' = 5000"
    unfolding start by simp_all
  have "\<not> isInCountdownIntro (dispatchAll ?t' (map TICK ds)) \<and>
      currentTime (dispatchAll ?t' (map TICK ds)) = 0"
    unfolding start using h by (intro intro_runs_out) simp_all
  then show "\<not> isInCountdownIntro (dispatchAll ?t' (map TICK ds))"
    and "currentTime (dispatchAll ?t' (map TICK ds)) = 0" by simp_all
qed

text \<open>A countdown with a 5 s intro: a tick of 2000 ms leaves 3000 ms, a tick of 7000 ms
  ends the intro at \<open>currentTime = 0\<close>, and the ticks 2000, 1500, 1500 end it at zero.\<close>

theorem intro_tick_witness:
  "mode introReady = Countdown \<and> countdownIntro introReady = 5 \<and>
   currentTime introReady = 0 \<and>
   isInCountdownIntro (timerReducer introReady START) \<and>
   introTimeRemaining (timerReducer introReady START) = 5000 \<and>
   timerReducer (timerReducer introReady START) (TICK 2000) =
     (timerReducer introReady START)\<lparr>introTimeRemaining := 3000\<rparr> \<and>
   timerReducer (timerReducer introReady START) (TICK 7000) =
     (timerReducer introReady START)\<lparr>isInCountdownIntro := False,
        introTimeRemaining := 0, currentTime := 0\<rparr> \<and>
   \<not> isInCountdownIntro
        (dispatchAll (timerReducer introReady START) (map TICK [2000, 1500, 1500])) \<and>
   currentTime
        (dispatchAll (timerReducer introReady START) (map TICK [2000, 1500, 1500])) = 0"
  using intro_tick [of "timerReducer introReady START" 2000 introReady "[2000, 1500, 1500]"]
    intro_tick [of "timerReducer introReady START" 7000 introReady "[2000, 1500, 1500]"]
  by (simp add: introReady_state initialState_def)

subsection \<open>Start\<close>

text \<open>
  C4. \<^verbatim>\<open>START\<close> sets \<open>isRunning\<close>. It enters the intro (\<open>isInCountdownIntro\<close> true,
  \<open>introTimeRemaining = countdownIntro * 1000\<close>) exactly when the mode is neither clock nor
  stopwatch, \<open>countdownIntro\<close> is positive and \<open>currentTime\<close> is zero; in every other case
  it changes \<open>isRunning\<close> only. Started from a state with \<open>currentTime > 0\<close> it leaves
  \<open>isInCountdownIntro\<close> and \<open>currentTime\<close> as they were.
\<close>

theorem start_enters_intro:
  "timerReducer s START =
     (if mode s \<noteq> Clock \<and> mode s \<noteq> Stopwatch \<and> 0 < countdownIntro s \<and> currentTime s = 0
      then s\<lparr>isRunning := True, isInCountdownIntro := True,
             introTimeRemaining := countdownIntro s * 1000\<rparr>
      else s\<lparr>isRunning := True\<rparr>)
   \<and> isRunning (timerReducer s START)
   \<and> (0 < currentTime s \<longrightarrow>
        timerReducer s START = s\<lparr>isRunning := True\<rparr> \<and>
        isInCountdownIntro (timerReducer s START) = isInCountdownIntro s \<and>
        currentTime (timerReducer s START) = currentTime s)"
  by (simp add: Let_def)

text \<open>Start, run through the intro to 3000 ms, stop, start again: no intro, 3000 ms kept.
  A countdown at zero with a 5 s intro enters the intro; the stopwatch never does.\<close>

theorem start_enters_intro_witness:
  "0 < currentTime pausedRun \<and> \<not> isRunning pausedRun \<and>
   0 < countdownIntro pausedRun \<and> mode pausedRun = Countdown \<and>
   isRunning (timerReducer pausedRun START) \<and>
   \<not> isInCountdownIntro (timerReducer pausedRun START) \<and>
   currentTime (timerReducer pausedRun START) = 3000 \<and>
   timerReducer introReady START =
     introReady\<lparr>isRunning := True, isInCountdownIntro := True,
                introTimeRemaining := 5000\<rparr> \<and>
   timerReducer initialState START = initialState\<lparr>isRunning := True\<rparr>"
  using start_enters_intro [of pausedRun] start_enters_intro [of introReady]
    start_enters_intro [of initialState]
  by (simp add: pausedRun_state introReady_state initialState_def)

subsection \<open>EMOM ticks\<close>

text \<open>
  C5. In EMOM mode, outside the intro, a tick with a delta of at least zero computes the
  minute as \<open>(currentTime + delta) div 60000 + 1\<close>. If the minute exceeds \<open>totalMinutes\<close>
  the result has \<open>currentTime = totalMinutes * 60000\<close>, is stopped and is in minute
  \<open>totalMinutes\<close>; otherwise the elapsed time and the minute are stored. The setting
  \<open>intervalTime\<close> plays no part: the tick on a state with another \<open>intervalTime\<close> is the
  same tick with that setting carried along. With 3 minutes: at 179999 ms minute 3 and
  \<open>isRunning\<close> untouched, at 180000 ms stopped at 180000 ms in minute 3.
\<close>

theorem emom_tick:
  "(mode s = Emom \<and> \<not> isInCountdownIntro s \<and> 0 \<le> delta \<longrightarrow>
      timerReducer s (TICK delta) =
        (let e = currentTime s + delta; minute = e div 60000 + 1
         in if minute > totalMinutes (emom s)
            then s\<lparr>currentTime := totalMinutes (emom s) * 60000, isRunning := False,
                   currentMinute := totalMinutes (emom s)\<rparr>
            else s\<lparr>currentTime := e, currentMinute := minute\<rparr>)
      \<and> timerReducer (s\<lparr>emom := (emom s)\<lparr>intervalTime := k\<rparr>\<rparr>) (TICK delta) =
          (timerReducer s (TICK delta))\<lparr>emom := (emom s)\<lparr>intervalTime := k\<rparr>\<rparr>)
   \<and>
   (mode t = Emom \<and> \<not> isInCountdownIntro t \<and> totalMinutes (emom t) = 3 \<longrightarrow>
      (currentTime t + d = 179999 \<longrightarrow>
         currentMinute (timerReducer t (TICK d)) = 3 \<and>
         isRunning (timerReducer t (TICK d)) = isRunning t \<and>
         currentTime (timerReducer t (TICK d)) = 179999) \<and>
      (currentTime t + d = 180000 \<longrightarrow>
         \<not> isRunning (timerReducer t (TICK d)) \<and>
         currentTime (timerReducer t (TICK d)) = 180000 \<and>
         currentMinute (timerReducer t (TICK d)) = 3))"
  by (simp add: tickMain_def Let_def)

text \<open>A 3 minute EMOM whose \<open>intervalTime\<close> is 45 s, 179990 ms in: still 60000 ms a minute.\<close>

theorem emom_tick_witness:
  "mode emomRun = Emom \<and> \<not> isInCountdownIntro emomRun \<and>
   emom emomRun = \<lparr>intervalTime = 45, totalMinutes = 3\<rparr> \<and>
   currentTime emomRun = 179990 \<and> isRunning emomRun \<and>
   timerReducer emomRun (TICK 9) = emomRun\<lparr>currentTime := 179999\<rparr> \<and>
   timerReducer emomRun (TICK 10) = emomRun\<lparr>currentTime := 180000, isRunning := False\<rparr>"
  using emom_tick [of emomRun 9 60 emomRun 9] emom_tick [of emomRun 10 60 emomRun 10]
  by (simp add: emomRun_state initialState_def)

subsection \<open>Mode switches keep the settings\<close>

text \<open>
  C7. \<^verbatim>\<open>SET_MODE\<close> leaves the four settings objects (countdown, tabata, emom, amrap) as
  they are. Hence switching to mode \<open>a\<close>, then to mode \<open>b\<close>, then back to \<open>a\<close> yields a
  state in mode \<open>a\<close> whose settings objects, that of mode \<open>a\<close> among them, are those the
  state held at the start.
\<close>

theorem set_mode_preserves_settings:
  "countdown (timerReducer s (SET_MODE m)) = countdown s \<and>
   tabata (timerReducer s (SET_MODE m)) = tabata s \<and>
   emom (timerReducer s (SET_MODE m)) = emom s \<and>
   amrap (timerReducer s (SET_MODE m)) = amrap s \<and>
   countdown (dispatchAll s [SET_MODE a, SET_MODE b, SET_MODE a]) = countdown s \<and>
   tabata (dispatchAll s [SET_MODE a, SET_MODE b, SET_MODE a]) = tabata s \<and>
   emom (dispatchAll s [SET_MODE a, SET_MODE b, SET_MODE a]) = emom s \<and>
   amrap (dispatchAll s [SET_MODE a, SET_MODE b, SET_MODE a]) = amrap s \<and>
   mode (dispatchAll s [SET_MODE a, SET_MODE b, SET_MODE a]) = a"
  by simp

subsection \<open>Ticks on a stopped state\<close>

text \<open>
  C9. The tick does not look at \<open>isRunning\<close>. For every state that is stopped and outside
  the intro, the tick still adds its delta to \<open>currentTime\<close> and applies the completion
  and phase logic of the mode: in clock and stopwatch mode the result is the state at
  \<open>e = currentTime + delta\<close>; in countdown and AMRAP mode it is the state at \<open>e\<close>, or at
  the total time once \<open>e\<close> reaches it; in Tabata mode the round and the phase are
  recomputed from \<open>e\<close> (for a cycle other than zero the round is \<open>e div cycleMs + 1\<close>), or
  the state is set to the end of the last round; in EMOM mode the minute is recomputed, or
  the state is set to the end of the last minute. The tick on a stopped state and the
  tick on the same state running agree in every field but \<open>isRunning\<close>. In particular a
  stopped stopwatch is advanced by the delta.
\<close>

theorem tick_ignores_isRunning:
  "(timerReducer (s\<lparr>isRunning := False\<rparr>) (TICK d))\<lparr>isRunning := False\<rparr> =
     (timerReducer (s\<lparr>isRunning := True\<rparr>) (TICK d))\<lparr>isRunning := False\<rparr>
   \<and>
   (\<not> isRunning s \<and> \<not> isInCountdownIntro s \<longrightarrow>
      timerReducer s (TICK d) =
        (let e = currentTime s + d
         in case mode s of
              Clock \<Rightarrow> s\<lparr>currentTime := e\<rparr>
            | Stopwatch \<Rightarrow> s\<lparr>currentTime := e\<rparr>
            | Countdown \<Rightarrow>
                if CountdownSettings.totalTime (countdown s) * 1000 \<le> e
                then s\<lparr>currentTime := CountdownSettings.totalTime (countdown s) * 1000,
                       isRunning := False\<rparr>
                else s\<lparr>currentTime := e\<rparr>
            | Tabata \<Rightarrow>
                (let cycleMs = (workTime (tabata s) + restTime (tabata s)) * 1000;
                     round = js_succ (js_floor_div e cycleMs)
                 in if js_greater round (rounds (tabata s))
                    then s\<lparr>currentTime := rounds (tabata s) * cycleMs, isRunning := False,
                           currentRound := Fin (rounds (tabata s)), isWorkPhase := False\<rparr>
                    else s\<lparr>currentTime := e, currentRound := round,
                           isWorkPhase :=
                             js_less (js_rem e cycleMs) (workTime (tabata s) * 1000)\<rparr>)
            | Emom \<Rightarrow>
                (let minute = e div 60000 + 1
                 in if minute > totalMinutes (emom s)
                    then s\<lparr>currentTime := totalMinutes (emom s) * 60000,
                           isRunning := False,
                           currentMinute := totalMinutes (emom s)\<rparr>
                    else s\<lparr>currentTime := e, currentMinute := minute\<rparr>)
            | Amrap \<Rightarrow>
                if AmrapSettings.totalTime (amrap s) * 1000 \<le> e
                then s\<lparr>currentTime := AmrapSettings.totalTime (amrap s) * 1000,
                       isRunning := False\<rparr>
                else s\<lparr>currentTime := e\<rparr>))
   \<and>
   (\<not> isRunning s \<and> \<not> isInCountdownIntro s \<and> mode s = Tabata \<and>
    (workTime (tabata s) + restTime (tabata s)) * 1000 \<noteq> 0 \<longrightarrow>
      timerReducer s (TICK d) =
        (let e = currentTime s + d;
             cycleMs = (workTime (tabata s) + restTime (tabata s)) * 1000;
             round = e div cycleMs + 1
         in if round > rounds (tabata s)
            then s\<lparr>currentTime := rounds (tabata s) * cycleMs, isRunning := False,
                   currentRound := Fin (rounds (tabata s)), isWorkPhase := False\<rparr>
            else s\<lparr>currentTime := e, currentRound := Fin round,
                   isWorkPhase :=
                     js_less (js_rem e cycleMs) (workTime (tabata s) * 1000)\<rparr>))
   \<and>
   (\<not> isRunning s \<and> \<not> isInCountdownIntro s \<and> mode s = Stopwatch \<longrightarrow>
      timerReducer s (TICK d) = s\<lparr>currentTime := currentTime s + d\<rparr>)"
proof (intro conjI impI)
  show "(timerReducer (s\<lparr>isRunning := False\<rparr>) (TICK d))\<lparr>isRunning := False\<rparr> =
     (timerReducer (s\<lparr>isRunning := True\<rparr>) (TICK d))\<lparr>isRunning := False\<rparr>"
    by (simp add: tickMain_def Let_def)
next
  assume h: "\<not> isRunning s \<and> \<not> isInCountdownIntro s"
  show "timerReducer s (TICK d) =
        (let e = currentTime s + d
         in case mode s of
              Clock \<Rightarrow> s\<lparr>currentTime := e\<rparr>
            | Stopwatch \<Rightarrow> s\<lparr>currentTime := e\<rparr>
            | Countdown \<Rightarrow>
                if CountdownSettings.totalTime (countdown s) * 1000 \<le> e
                then s\<lparr>currentTime := CountdownSettings.totalTime (countdown s) * 1000,
                       isRunning := False\<rparr>
                else s\<lparr>currentTime := e\<rparr>
            | Tabata \<Rightarrow>
                (let cycleMs = (workTime (tabata s) + restTime (tabata s)) * 1000;
                     round = js_succ (js_floor_div e cycleMs)
                 in if js_greater round (rounds (tabata s))
                    then s\<lparr>currentTime := rounds (tabata s) * cycleMs, isRunning := False,
                           currentRound := Fin (rounds (tabata s)), isWorkPhase := False\<rparr>
                    else s\<lparr>currentTime := e, currentRound := round,
                           isWorkPhase :=
                             js_less (js_rem e cycleMs) (workTime (tabata s) * 1000)\<rparr>)
            | Emom \<Rightarrow>
                (let minute = e div 60000 + 1
                 in if minute > totalMinutes (emom s)
                    then s\<lparr>currentTime := totalMinutes (emom s) * 60000,
                           isRunning := False,
                           currentMinute := totalMinutes (emom s)\<rparr>
                    else s\<lparr>currentTime := e, currentMinute := minute\<rparr>)
            | Amrap \<Rightarrow>
                if AmrapSettings.totalTime (amrap s) * 1000 \<le> e
                then s\<lparr>currentTime := AmrapSettings.totalTime (amrap s) * 1000,
                       isRunning := False\<rparr>
                else s\<lparr>currentTime := e\<rparr>)"
    using h by (cases "mode s") (simp_all add: tickMain_def Let_def)
next
  assume h: "\<not> isRunning s \<and> \<not> isInCountdownIntro s \<and> mode s = Tabata \<and>
    (workTime (tabata s) + restTime (tabata s)) * 1000 \<noteq> 0"
  then show "timerReducer s (TICK d) =
        (let e = currentTime s + d;
             cycleMs = (workTime (tabata s) + restTime (tabata s)) * 1000;
             round = e div cycleMs + 1
         in if round > rounds (tabata s)
            then s\<lparr>currentTime := rounds (tabata s) * cycleMs, isRunning := False,
                   currentRound := Fin (rounds (tabata s)), isWorkPhase := False\<rparr>
            else s\<lparr>currentTime := e, currentRound := Fin round,
                   isWorkPhase :=
                     js_less (js_rem e cycleMs) (workTime (tabata s) * 1000)\<rparr>)"
    by (intro tick_tabata) simp_all
next
  assume "\<not> isRunning s \<and> \<not> isInCountdownIntro s \<and> mode s = Stopwatch"
  then show "timerReducer s (TICK d) = s\<lparr>currentTime := currentTime s + d\<rparr>"
    by (simp add: tickMain_def Let_def)
qed

text \<open>Stopped states of every mode under a tick: the stopwatch goes from 100 ms to 140 ms
  and the clock from 0 to 40 ms; the countdown from 3000 ms to 3040 ms, and to its end at
  180000 ms; the Tabata from 5000 ms to 25000 ms, rest phase of round 1, and to its end
  at 240000 ms in round 8; the EMOM from 59990 ms to 60000 ms, minute 2, and to its end at
  600000 ms in minute 10; the AMRAP from 599990 ms to 599995 ms, and to its end at
  600000 ms.\<close>

theorem tick_ignores_isRunning_witness:
  "\<not> isRunning stoppedStopwatch \<and> \<not> isInCountdownIntro stoppedStopwatch \<and>
   mode stoppedStopwatch = Stopwatch \<and> currentTime stoppedStopwatch = 100 \<and>
   currentTime (timerReducer stoppedStopwatch (TICK 40)) = 140 \<and>
   \<not> isRunning (timerReducer stoppedStopwatch (TICK 40)) \<and>
   \<not> isRunning stoppedClock \<and> \<not> isInCountdownIntro stoppedClock \<and>
   timerReducer stoppedClock (TICK 40) = stoppedClock\<lparr>currentTime := 40\<rparr> \<and>
   \<not> isRunning stoppedCountdown \<and> \<not> isInCountdownIntro stoppedCountdown \<and>
   currentTime stoppedCountdown = 3000 \<and>
   timerReducer stoppedCountdown (TICK 40) = stoppedCountdown\<lparr>currentTime := 3040\<rparr> \<and>
   timerReducer stoppedCountdown (TICK 200000) =
     stoppedCountdown\<lparr>currentTime := 180000\<rparr> \<and>
   \<not> isRunning stoppedTabata \<and> \<not> isInCountdownIntro stoppedTabata \<and>
   currentTime stoppedTabata = 5000 \<and>
   timerReducer stoppedTabata (TICK 20000) =
     stoppedTabata\<lparr>currentTime := 25000, isWorkPhase := False\<rparr> \<and>
   timerReducer stoppedTabata (TICK 300000) =
     stoppedTabata\<lparr>currentTime := 240000, currentRound := Fin 8,
                   isWorkPhase := False\<rparr> \<and>
   \<not> isRunning stoppedEmom \<and> \<not> isInCountdownIntro stoppedEmom \<and>
   currentTime stoppedEmom = 59990 \<and>
   timerReducer stoppedEmom (TICK 10) =
     stoppedEmom\<lparr>currentTime := 60000, currentMinute := 2\<rparr> \<and>
   timerReducer stoppedEmom (TICK 700000) =
     stoppedEmom\<lparr>currentTime := 600000, currentMinute := 10\<rparr> \<and>
   \<not> isRunning stoppedAmrap \<and> \<not> isInCountdownIntro stoppedAmrap \<and>
   currentTime stoppedAmrap = 599990 \<and>
   timerReducer stoppedAmrap (TICK 5) = stoppedAmrap\<lparr>currentTime := 599995\<rparr> \<and>
   timerReducer stoppedAmrap (TICK 10) = stoppedAmrap\<lparr>currentTime := 600000\<rparr>"
  using tick_ignores_isRunning [of stoppedStopwatch 40]
    tick_ignores_isRunning [of stoppedClock 40]
    tick_ignores_isRunning [of stoppedCountdown 40]
    tick_ignores_isRunning [of stoppedCountdown 200000]
    tick_ignores_isRunning [of stoppedTabata 20000]
    tick_ignores_isRunning [of stoppedTabata 300000]
    tick_ignores_isRunning [of stoppedEmom 10]
    tick_ignores_isRunning [of stoppedEmom 700000]
    tick_ignores_isRunning [of stoppedAmrap 5]
    tick_ignores_isRunning [of stoppedAmrap 10]
  by (simp add: stoppedStopwatch_state stoppedClock_state stoppedCountdown_state
      stoppedTabata_state stoppedEmom_state stoppedAmrap_state initialState_def
      Let_def js_rem_def js_floor_div_def)

subsection \<open>Start during the intro\<close>

text \<open>
  C10. \<^verbatim>\<open>START\<close> on a state that is already in the intro (running, \<open>currentTime = 0\<close>,
  \<open>countdownIntro\<close> positive, mode neither clock nor stopwatch) starts the intro again:
  \<open>introTimeRemaining\<close> is set back to \<open>countdownIntro * 1000\<close>, whatever had elapsed of it,
  and nothing else changes.
\<close>

theorem start_restarts_intro:
  "isRunning s \<and> isInCountdownIntro s \<and> currentTime s = 0 \<and> 0 < countdownIntro s \<and>
   mode s \<noteq> Clock \<and> mode s \<noteq> Stopwatch \<longrightarrow>
     timerReducer s START = s\<lparr>introTimeRemaining := countdownIntro s * 1000\<rparr> \<and>
     introTimeRemaining (timerReducer s START) = countdownIntro s * 1000"
  by (simp add: Let_def)

text \<open>A Tabata 4000 ms into its 10 s intro: 6000 ms remain, and a start makes it 10000.\<close>

theorem start_restarts_intro_witness:
  "isRunning introRunning \<and> isInCountdownIntro introRunning \<and>
   currentTime introRunning = 0 \<and> countdownIntro introRunning = 10 \<and>
   mode introRunning = Tabata \<and> introTimeRemaining introRunning = 6000 \<and>
   introTimeRemaining (timerReducer introRunning START) = 10000"
  using start_restarts_intro [of introRunning]
  by (simp add: introRunning_state initialState_def)

subsection \<open>Elapsed time under a tick\<close>

text \<open>
  C6, as stated, fails: the reducer adds the delta as it is, so a negative delta lowers
  \<open>currentTime\<close> (a running stopwatch at 100 ms, tick of -50 ms, is at 50 ms); and a zero
  delta lowers it when \<open>currentTime\<close> lies past the boundary, as after the countdown's
  total time was edited from 180 s down to 60 s at 100000 ms.
\<close>

theorem tick_delta_counterexample:
  "\<not> isInCountdownIntro stopwatchRun \<and> (- 50 :: int) \<le> 0 \<and>
   currentTime stopwatchRun = 100 \<and>
   currentTime (timerReducer stopwatchRun (TICK (- 50))) = 50 \<and>
   currentTime (timerReducer stopwatchRun (TICK (- 50))) < currentTime stopwatchRun \<and>
   \<not> isInCountdownIntro shortenedCountdown \<and> (0 :: int) \<le> 0 \<and>
   currentTime shortenedCountdown = 100000 \<and>
   currentTime (timerReducer shortenedCountdown (TICK 0)) = 60000 \<and>
   currentTime (timerReducer shortenedCountdown (TICK 0)) < currentTime shortenedCountdown"
  by (simp add: stopwatchRun_state shortenedCountdown_state initialState_def
      tickMain_def Let_def)

text \<open>
  C6, amended. For every state outside the intro whose \<open>currentTime\<close> does not exceed the
  completion boundary of its mode (no condition in clock and stopwatch mode), a tick with
  a delta of zero, or of more than zero, yields a \<open>currentTime\<close> that is not less than the
  previous one.
\<close>

theorem tick_never_decreases_within_boundary:
  "\<not> isInCountdownIntro s \<and> withinBoundary s \<and> 0 \<le> delta \<longrightarrow>
     currentTime s \<le> currentTime (timerReducer s (TICK delta))"
  using tick_nonneg_mono by blast

text \<open>Zero deltas: the stopwatch stays at 100 ms, the countdown at 179990 ms.\<close>

theorem tick_never_decreases_within_boundary_witness:
  "\<not> isInCountdownIntro stopwatchRun \<and> withinBoundary stopwatchRun \<and>
   currentTime stopwatchRun = 100 \<and>
   currentTime stopwatchRun \<le> currentTime (timerReducer stopwatchRun (TICK 0)) \<and>
   \<not> isInCountdownIntro countdownRun \<and> withinBoundary countdownRun \<and>
   currentTime countdownRun = 179990 \<and>
   currentTime countdownRun \<le> currentTime (timerReducer countdownRun (TICK 0))"
  using tick_never_decreases_within_boundary [of stopwatchRun 0]
    tick_never_decreases_within_boundary [of countdownRun 0]
  by (simp add: stopwatchRun_state countdownRun_state initialState_def
      withinBoundary_def boundary_def)

subsection \<open>The cached round and minute\<close>

text \<open>
  C8, as stated, fails: an edit of the settings is a reducer command, and it replaces the
  settings without looking at the cached progress. A Tabata stopped in round 5 of 8
  satisfies the invariant; after \<^verbatim>\<open>SET_TABATA\<close> with 20 s work, 10 s rest and 2 rounds
  (positive settings) the round is still 5, outside 1 to 2.
\<close>

theorem settings_edit_counterexample:
  "positiveSettings tabataLate \<and> progressInRange tabataLate \<and>
   0 \<le> currentTime tabataLate \<and>
   currentRound tabataLate = Fin 5 \<and> rounds (tabata tabataLate) = 8 \<and>
   positiveSettings
     (timerReducer tabataLate
        (SET_TABATA \<lparr>workTime = 20, restTime = 10, rounds = 2\<rparr>)) \<and>
   currentRound
     (timerReducer tabataLate
        (SET_TABATA \<lparr>workTime = 20, restTime = 10, rounds = 2\<rparr>)) = Fin 5 \<and>
   rounds (tabata
     (timerReducer tabataLate
        (SET_TABATA \<lparr>workTime = 20, restTime = 10, rounds = 2\<rparr>))) = 2 \<and>
   \<not> progressInRange
     (timerReducer tabataLate
        (SET_TABATA \<lparr>workTime = 20, restTime = 10, rounds = 2\<rparr>))"
  by (simp add: tabataLate_state initialState_def positiveSettings_def
      progressInRange_def)

text \<open>
  C8, amended. With positive settings, from a state with \<open>currentTime\<close> of at least zero,
  the round between 1 and \<open>rounds\<close> and the minute between 1 and \<open>totalMinutes\<close>, every
  reducer command yields such a state again, provided that a tick has a delta of at least
  zero and that an edit of the settings installs positive values with \<open>rounds\<close> not below
  the cached round and \<open>totalMinutes\<close> not below the cached minute.
\<close>

theorem reducer_keeps_invariant:
  assumes "engineInvariant s" and "admissible s a"
  shows "engineInvariant (timerReducer s a)"
proof (cases a)
  case (TICK delta)
  then show ?thesis using assms by (simp only: tick_keeps_invariant admissible.simps)
next
  case (SET_TABATA settings)
  then show ?thesis using assms by (simp add: invariant_defs)
qed (use assms in \<open>simp_all add: invariant_defs Let_def\<close>)

text \<open>The Tabata run at 19990 ms under a tick, and the stopped Tabata in round 5 under an
  edit to 6 rounds.\<close>

theorem reducer_keeps_invariant_witness:
  "engineInvariant tabataRun \<and> admissible tabataRun (TICK 10) \<and>
   engineInvariant (timerReducer tabataRun (TICK 10)) \<and>
   engineInvariant tabataLate \<and>
   admissible tabataLate (SET_TABATA \<lparr>workTime = 30, restTime = 15, rounds = 6\<rparr>) \<and>
   engineInvariant
     (timerReducer tabataLate (SET_TABATA \<lparr>workTime = 30, restTime = 15, rounds = 6\<rparr>))"
proof -
  have r: "engineInvariant tabataRun" "admissible tabataRun (TICK 10)"
    by (simp_all add: tabataRun_state initialState_def invariant_defs)
  have l: "engineInvariant tabataLate"
    "admissible tabataLate (SET_TABATA \<lparr>workTime = 30, restTime = 15, rounds = 6\<rparr>)"
    by (simp_all add: tabataLate_state initialState_def invariant_defs)
  show ?thesis
    using r l reducer_keeps_invariant [OF r]
      reducer_keeps_invariant [OF l]
    by simp
qed

end
